theory Spec2Isabelle
  imports Main
begin

section \<open>Dependency extraction: \<^verbatim>\<open>src/tools/extract_dependencies.py\<close>\<close>

text \<open>
  A shallow embedding of the import scanner. Python text is modelled as \<^typ>\<open>string\<close>,
  one \<^typ>\<open>char\<close> per code point, so the model covers text whose code points lie in
  U+0000..U+00FF. Python sets of names are \<^typ>\<open>string set\<close>; a Python set is always
  finite, which a theorem about cardinalities states as a hypothesis. Exceptions are
  values: a function that can raise returns \<open>py_exception + 'a\<close>, with \<open>Inl\<close> for
  the exception that leaves the function. What the Python runtime supplies (the parser
  \<^verbatim>\<open>ast.parse\<close>, reading a file, \<^verbatim>\<open>json.load\<close>) is a parameter of the
  functions that call it.
\<close>

subsection \<open>Text primitives\<close>

text \<open>
  \<^verbatim>\<open>str.isspace\<close>, which is also the class \<^verbatim>\<open>\s\<close> of a \<^verbatim>\<open>str\<close> pattern:
  U+0009..U+000D, U+001C..U+0020, U+0085 and U+00A0 in the range modelled.
\<close>

definition is_space :: "char \<Rightarrow> bool" where
  "is_space c =
     (let n = (of_char c :: nat)
      in (9 \<le> n \<and> n \<le> 13) \<or> (28 \<le> n \<and> n \<le> 32) \<or> n = 133 \<or> n = 160)"

text \<open>
  The class \<^verbatim>\<open>\w\<close> of a \<^verbatim>\<open>str\<close> pattern: the underscore and every code point
  for which \<^verbatim>\<open>str.isalnum\<close> holds. Below U+0100 these are the ASCII digits and
  letters, the letters U+00AA, U+00B5, U+00BA, U+00C0..U+00FF without the two
  operators U+00D7 and U+00F7, and the numeric signs U+00B2, U+00B3, U+00B9 and
  U+00BC..U+00BE.
\<close>

definition is_word :: "char \<Rightarrow> bool" where
  "is_word c =
     (let n = (of_char c :: nat)
      in (48 \<le> n \<and> n \<le> 57) \<or> (65 \<le> n \<and> n \<le> 90) \<or> n = 95 \<or> (97 \<le> n \<and> n \<le> 122)
         \<or> n = 170 \<or> n = 178 \<or> n = 179 \<or> n = 181 \<or> n = 185 \<or> n = 186
         \<or> (188 \<le> n \<and> n \<le> 190) \<or> (192 \<le> n \<and> n \<le> 214) \<or> (216 \<le> n \<and> n \<le> 246)
         \<or> (248 \<le> n \<and> n \<le> 255))"

text \<open>The character class \<^verbatim>\<open>[\w\.]\<close> of both patterns.\<close>

definition is_path_char :: "char \<Rightarrow> bool" where
  "is_path_char c = (is_word c \<or> c = CHR ''.'')"

text \<open>
  \<^verbatim>\<open>s.split(sep)\<close> for a separator of one character: the pieces between the
  separators, so one piece more than there are separators and never an empty list.
\<close>

fun py_split :: "char \<Rightarrow> string \<Rightarrow> string list" where
  "py_split sep [] = [[]]"
| "py_split sep (c # cs) =
     (if c = sep then [] # py_split sep cs
      else (case py_split sep cs of
              [] \<Rightarrow> [[c]]
            | piece # pieces \<Rightarrow> (c # piece) # pieces))"

text \<open>\<^verbatim>\<open>s.strip()\<close>: whitespace removed at both ends.\<close>

definition strip :: "string \<Rightarrow> string" where
  "strip s = rev (dropWhile is_space (rev (dropWhile is_space s)))"

text \<open>
  \<^verbatim>\<open>path.split('.')[0]\<close>, the expression that all four places of the source use
  to take the top-level module. The index is in range, as \<open>py_split\<close> never returns
  the empty list (lemma \<open>py_split_not_Nil\<close> below).
\<close>

definition top_module :: "string \<Rightarrow> string" where
  "top_module path = hd (py_split CHR ''.'' path)"

subsection \<open>The fixed tables\<close>

text \<open>\<^verbatim>\<open>STDLIB_MODULES\<close>, lines 19-52 of the source, in the source's order.\<close>

definition STDLIB_MODULES :: "string set" where
  "STDLIB_MODULES = set [
    ''abc'', ''aifc'', ''argparse'', ''array'', ''ast'', ''asynchat'', ''asyncio'',
    ''asyncore'', ''atexit'', ''audioop'', ''base64'', ''bdb'', ''binascii'',
    ''binhex'', ''bisect'', ''builtins'', ''bz2'', ''calendar'', ''cgi'', ''cgitb'',
    ''chunk'', ''cmath'', ''cmd'', ''code'', ''codecs'', ''codeop'', ''collections'',
    ''colorsys'', ''compileall'', ''concurrent'', ''configparser'', ''contextlib'',
    ''contextvars'', ''copy'', ''copyreg'', ''cProfile'', ''crypt'', ''csv'',
    ''ctypes'', ''curses'', ''dataclasses'', ''datetime'', ''dbm'', ''decimal'',
    ''difflib'', ''dis'', ''distutils'', ''doctest'', ''email'', ''encodings'',
    ''enum'', ''errno'', ''faulthandler'', ''fcntl'', ''filecmp'', ''fileinput'',
    ''fnmatch'', ''fractions'', ''ftplib'', ''functools'', ''gc'', ''getopt'',
    ''getpass'', ''gettext'', ''glob'', ''graphlib'', ''grp'', ''gzip'', ''hashlib'',
    ''heapq'', ''hmac'', ''html'', ''http'', ''idlelib'', ''imaplib'', ''imghdr'',
    ''imp'', ''importlib'', ''inspect'', ''io'', ''ipaddress'', ''itertools'',
    ''json'', ''keyword'', ''lib2to3'', ''linecache'', ''locale'', ''logging'',
    ''lzma'', ''mailbox'', ''mailcap'', ''marshal'', ''math'', ''mimetypes'', ''mmap'',
    ''modulefinder'', ''multiprocessing'', ''netrc'', ''nis'', ''nntplib'',
    ''numbers'', ''operator'', ''optparse'', ''os'', ''ossaudiodev'', ''pathlib'',
    ''pdb'', ''pickle'', ''pickletools'', ''pipes'', ''pkgutil'', ''platform'',
    ''plistlib'', ''poplib'', ''posix'', ''posixpath'', ''pprint'', ''profile'',
    ''pstats'', ''pty'', ''pwd'', ''py_compile'', ''pyclbr'', ''pydoc'', ''queue'',
    ''quopri'', ''random'', ''re'', ''readline'', ''reprlib'', ''resource'',
    ''rlcompleter'', ''runpy'', ''sched'', ''secrets'', ''select'', ''selectors'',
    ''shelve'', ''shlex'', ''shutil'', ''signal'', ''site'', ''smtpd'', ''smtplib'',
    ''sndhdr'', ''socket'', ''socketserver'', ''spwd'', ''sqlite3'', ''ssl'', ''stat'',
    ''statistics'', ''string'', ''stringprep'', ''struct'', ''subprocess'', ''sunau'',
    ''symtable'', ''sys'', ''sysconfig'', ''syslog'', ''tabnanny'', ''tarfile'',
    ''telnetlib'', ''tempfile'', ''termios'', ''test'', ''textwrap'', ''threading'',
    ''time'', ''timeit'', ''tkinter'', ''token'', ''tokenize'', ''trace'',
    ''traceback'', ''tracemalloc'', ''tty'', ''turtle'', ''turtledemo'', ''types'',
    ''typing'', ''unicodedata'', ''unittest'', ''urllib'', ''uu'', ''uuid'', ''venv'',
    ''warnings'', ''wave'', ''weakref'', ''webbrowser'', ''winreg'', ''winsound'',
    ''wsgiref'', ''xdrlib'', ''xml'', ''xmlrpc'', ''zipapp'', ''zipfile'',
    ''zipimport'', ''zlib'', ''_thread'', ''typing_extensions'']"

text \<open>\<^verbatim>\<open>IMPORT_TO_PIP\<close>, lines 55-65: a dictionary whose keys are pairwise distinct.\<close>

definition IMPORT_TO_PIP :: "string \<rightharpoonup> string" where
  "IMPORT_TO_PIP = map_of [
    (''googleapiclient'', ''google-api-python-client''),
    (''dotenv'', ''python-dotenv''),
    (''sklearn'', ''scikit-learn''),
    (''PIL'', ''Pillow''),
    (''cv2'', ''opencv-python''),
    (''yaml'', ''PyYAML''),
    (''bs4'', ''beautifulsoup4''),
    (''google'', ''google-api-python-client''),
    (''youtube_transcript_api'', ''youtube-transcript-api'')]"

subsection \<open>Filter and mapper\<close>

text \<open>\<^verbatim>\<open>{imp for imp in imports if imp not in STDLIB_MODULES}\<close>\<close>

definition filter_third_party :: "string set \<Rightarrow> string set" where
  "filter_third_party imports = {imp \<in> imports. imp \<notin> STDLIB_MODULES}"

text \<open>\<^verbatim>\<open>IMPORT_TO_PIP.get(imp, imp)\<close>: the table's value, or the name itself on a miss.\<close>

definition pip_name :: "string \<Rightarrow> string" where
  "pip_name imp = (case IMPORT_TO_PIP imp of None \<Rightarrow> imp | Some p \<Rightarrow> p)"

text \<open>
  The loop of \<^verbatim>\<open>map_to_pip_names\<close> adds \<^verbatim>\<open>pip_name\<close> of every element to a
  fresh set: the result is the image of the input.
\<close>

definition map_to_pip_names :: "string set \<Rightarrow> string set" where
  "map_to_pip_names imports = pip_name ` imports"


subsection \<open>The fallback matcher\<close>

text \<open>A literal at the start of the text: the rest after it, when the text begins with it.\<close>

definition literal_prefix :: "string \<Rightarrow> string \<Rightarrow> string option" where
  "literal_prefix lit s =
     (if take (length lit) s = lit then Some (drop (length lit) s) else None)"

text \<open>
  \<^verbatim>\<open>re.match(r'^import\s+([\w\.]+)', line)\<close>, returning group 1 of a match and
  \<open>None\<close> where Python returns no match. Both repetitions are greedy; the two classes
  are disjoint (lemma \<open>space_not_path_char\<close> below), so a repetition that gave a
  character back would leave the next item facing a character it cannot match, and the
  greedy choice is the only one that can succeed.
\<close>

definition match_pattern1 :: "string \<Rightarrow> string option" where
  "match_pattern1 line =
     (case literal_prefix ''import'' line of
        None \<Rightarrow> None
      | Some r \<Rightarrow>
          (let gap = takeWhile is_space r;
               grp = takeWhile is_path_char (dropWhile is_space r)
           in if gap = [] \<or> grp = [] then None else Some grp))"

text \<open>
  \<^verbatim>\<open>re.match(r'^from\s+([\w\.]+)\s+import', line)\<close>, in the same way: the word
  \<^verbatim>\<open>from\<close>, whitespace, the group, whitespace, and the word \<^verbatim>\<open>import\<close>.
\<close>

definition match_pattern2 :: "string \<Rightarrow> string option" where
  "match_pattern2 line =
     (case literal_prefix ''from'' line of
        None \<Rightarrow> None
      | Some r \<Rightarrow>
          (let gap1 = takeWhile is_space r;
               r1 = dropWhile is_space r;
               grp = takeWhile is_path_char r1;
               r2 = dropWhile is_path_char r1;
               gap2 = takeWhile is_space r2;
               r3 = dropWhile is_space r2
           in if gap1 = [] \<or> grp = [] \<or> gap2 = [] \<or> literal_prefix ''import'' r3 = None
              then None else Some grp))"

text \<open>
  The body of the loop over the lines (lines 103-113): the line is stripped, then each
  pattern is tried on it, one after the other, and each match adds the top-level module
  of its group.
\<close>

definition regex_line :: "string \<Rightarrow> string set \<Rightarrow> string set" where
  "regex_line line imports =
     (let line' = strip line;
          imports1 = (case match_pattern1 line' of
                        None \<Rightarrow> imports
                      | Some g \<Rightarrow> insert (top_module g) imports)
      in (case match_pattern2 line' of
            None \<Rightarrow> imports1
          | Some g \<Rightarrow> insert (top_module g) imports1))"

fun regex_lines :: "string list \<Rightarrow> string set \<Rightarrow> string set" where
  "regex_lines [] imports = imports"
| "regex_lines (line # rest) imports = regex_lines rest (regex_line line imports)"

definition extract_imports_regex :: "string \<Rightarrow> string set" where
  "extract_imports_regex code = regex_lines (py_split CHR 0x0A code) {}"

subsection \<open>The syntax tree and the primary strategy\<close>

text \<open>
  The part of Python's \<^verbatim>\<open>ast\<close> nodes that the scanner looks at. \<open>Import\<close> has the
  field \<^verbatim>\<open>names\<close>; \<open>ImportFrom\<close> has \<^verbatim>\<open>module\<close> (\<open>None\<close> for a relative
  import that names no module), \<^verbatim>\<open>names\<close> and \<^verbatim>\<open>level\<close>. \<open>Other\<close> stands for
  a node of any other class, with its child nodes: the module itself, a function
  definition, a conditional, an expression. The class \<^verbatim>\<open>ast.alias\<close> is the type
  \<open>ast_alias\<close>.
\<close>

datatype ast_alias = Alias (name: string) (asname: "string option")

datatype node =
    Import "ast_alias list"
  | ImportFrom "string option" "ast_alias list" nat
  | AliasNode ast_alias
  | Other "node list"

text \<open>\<^verbatim>\<open>ast.iter_child_nodes\<close>: the aliases of an import statement are its children.\<close>

fun child_nodes :: "node \<Rightarrow> node list" where
  "child_nodes (Import names) = map AliasNode names"
| "child_nodes (ImportFrom module names level) = map AliasNode names"
| "child_nodes (AliasNode a) = []"
| "child_nodes (Other children) = children"

text \<open>The number of nodes of a tree, which decreases as the queue is worked off.\<close>

fun node_weight :: "node \<Rightarrow> nat" where
  "node_weight (Import names) = Suc (length names)"
| "node_weight (ImportFrom module names level) = Suc (length names)"
| "node_weight (AliasNode a) = 1"
| "node_weight (Other children) = Suc (sum_list (map node_weight children))"

text \<open>
  \<^verbatim>\<open>ast.walk\<close>: a queue that starts with the root; the first node is taken out, its
  children are appended at the end, and the node is yielded.
\<close>

function walk_queue :: "node list \<Rightarrow> node list" where
  "walk_queue [] = []"
| "walk_queue (n # todo) = n # walk_queue (todo @ child_nodes n)"
  by pat_completeness auto
termination
proof (relation "measure (\<lambda>todo. sum_list (map node_weight todo))")
  show "wf (measure (\<lambda>todo. sum_list (map node_weight todo)))"
    by simp
next
  fix n :: node and todo :: "node list"
  have "sum_list (map (\<lambda>a. Suc 0) names) = length names" for names :: "ast_alias list"
    by (induction names) simp_all
  then have "sum_list (map node_weight (child_nodes n)) < node_weight n"
    by (cases n) (simp_all add: comp_def)
  then show "(todo @ child_nodes n, n # todo) \<in> measure (\<lambda>todo. sum_list (map node_weight todo))"
    by simp
qed

definition walk :: "node \<Rightarrow> node list" where
  "walk tree = walk_queue [tree]"

text \<open>The inner loop of lines 80-83 over the aliases of a plain import.\<close>

fun add_aliases :: "ast_alias list \<Rightarrow> string set \<Rightarrow> string set" where
  "add_aliases [] imports = imports"
| "add_aliases (a # rest) imports = add_aliases rest (insert (top_module (name a)) imports)"

text \<open>
  The loop of lines 78-88 over the nodes that \<^verbatim>\<open>ast.walk\<close> yields. The test
  \<^verbatim>\<open>if node.module\<close> fails for \<open>None\<close> and for the empty text.
\<close>

fun visit_nodes :: "node list \<Rightarrow> string set \<Rightarrow> string set" where
  "visit_nodes [] imports = imports"
| "visit_nodes (Import names # rest) imports = visit_nodes rest (add_aliases names imports)"
| "visit_nodes (ImportFrom module names level # rest) imports =
     visit_nodes rest
       (case module of
          None \<Rightarrow> imports
        | Some m \<Rightarrow> if m = [] then imports else insert (top_module m) imports)"
| "visit_nodes (AliasNode a # rest) imports = visit_nodes rest imports"
| "visit_nodes (Other children # rest) imports = visit_nodes rest imports"

text \<open>
  The exceptions that can leave a function of the scanner. The three that an adapter
  catches carry the text that \<^verbatim>\<open>str(e)\<close> gives, which the warning prints.
\<close>

datatype py_exception =
    SyntaxError
  | ValueError
  | TypeError
  | AttributeError
  | OSError
  | FileNotFoundError string
  | UnicodeDecodeError string
  | JSONDecodeError string

text \<open>
  \<^verbatim>\<open>extract_imports_from_code\<close>. The parameter \<open>parse\<close> is \<^verbatim>\<open>ast.parse\<close>: the
  tree, or the exception it raises. Only \<^verbatim>\<open>SyntaxError\<close> is caught (line 74); any
  other exception leaves the function.
\<close>

definition extract_imports_from_code ::
    "(string \<Rightarrow> py_exception + node) \<Rightarrow> string \<Rightarrow> py_exception + string set" where
  "extract_imports_from_code parse code =
     (case parse code of
        Inl SyntaxError \<Rightarrow> Inr (extract_imports_regex code)
      | Inl e \<Rightarrow> Inl e
      | Inr tree \<Rightarrow> Inr (visit_nodes (walk tree) {}))"

text \<open>
  Three outcomes of \<^verbatim>\<open>ast.parse\<close>, to put in the place of the parameter at a
  concrete text: the parser rejects the text as malformed; it fails with
  \<^verbatim>\<open>ValueError\<close>, as CPython up to 3.11 does on a text with a NUL character; or it
  returns the given tree.
\<close>

definition syntax_error_parse :: "string \<Rightarrow> py_exception + node" where
  "syntax_error_parse code = Inl SyntaxError"


definition parsed_as :: "node \<Rightarrow> string \<Rightarrow> py_exception + node" where
  "parsed_as tree code = Inr tree"

subsection \<open>The adapters\<close>

text \<open>
  The dictionary that both adapters return, with its keys \<^verbatim>\<open>"file"\<close> and
  \<^verbatim>\<open>"imports"\<close> as the fields \<open>result_file\<close> and \<open>result_imports\<close>. A path is modelled by the text that \<^verbatim>\<open>str\<close> gives
  for it. An adapter returns the lines it printed together with its result.
\<close>

record extraction_result =
  result_file :: string
  result_imports :: "string set"


text \<open>
  What \<^verbatim>\<open>json.load\<close> returns. An object is the list of its items, whose keys are
  pairwise distinct in a Python dictionary; the value of a number is never looked at.
\<close>

datatype json =
    JNull
  | JBool bool
  | JNumber int
  | JString string
  | JArray "json list"
  | JObject "(string \<times> json) list"

text \<open>\<^verbatim>\<open>d.get(key, default)\<close>\<close>

definition dict_get :: "(string \<times> json) list \<Rightarrow> string \<Rightarrow> json \<Rightarrow> json" where
  "dict_get d key dflt = (case map_of d key of None \<Rightarrow> dflt | Some v \<Rightarrow> v)"

text \<open>
  What \<^verbatim>\<open>for cell in cells\<close> iterates over: the elements of a list, the characters
  of a text, the keys of a dictionary; any other value is not iterable.
\<close>

definition iterate :: "json \<Rightarrow> py_exception + json list" where
  "iterate cells =
     (case cells of
        JArray xs \<Rightarrow> Inr xs
      | JString s \<Rightarrow> Inr (map (\<lambda>c. JString [c]) s)
      | JObject d \<Rightarrow> Inr (map (\<lambda>kv. JString (fst kv)) d)
      | _ \<Rightarrow> Inl TypeError)"

text \<open>\<^verbatim>\<open>''.join(source)\<close>, which raises \<^verbatim>\<open>TypeError\<close> on a fragment that is no text.\<close>

fun join_fragments :: "json list \<Rightarrow> py_exception + string" where
  "join_fragments [] = Inr []"
| "join_fragments (JString s # rest) =
     (case join_fragments rest of Inl ex \<Rightarrow> Inl ex | Inr t \<Rightarrow> Inr (s @ t))"
| "join_fragments (_ # rest) = Inl TypeError"

text \<open>
  Lines 132-136, and the call of line 138 on a payload that is no text, which
  \<^verbatim>\<open>ast.parse\<close> refuses with \<^verbatim>\<open>TypeError\<close>.
\<close>

definition cell_code :: "json \<Rightarrow> py_exception + string" where
  "cell_code source =
     (case source of
        JArray fragments \<Rightarrow> join_fragments fragments
      | JString s \<Rightarrow> Inr s
      | _ \<Rightarrow> Inl TypeError)"

text \<open>
  The loop of lines 130-139. \<^verbatim>\<open>cell.get\<close> exists on a dictionary only; a cell of
  another kind raises \<^verbatim>\<open>AttributeError\<close>.
\<close>

fun notebook_cells ::
    "(string \<Rightarrow> py_exception + node) \<Rightarrow> json list \<Rightarrow> string set \<Rightarrow> py_exception + string set" where
  "notebook_cells parse [] imports = Inr imports"
| "notebook_cells parse (JObject cell # rest) imports =
     (if map_of cell ''cell_type'' = Some (JString ''code'') then
        (case cell_code (dict_get cell ''source'' (JArray [])) of
           Inl ex \<Rightarrow> Inl ex
         | Inr code \<Rightarrow>
             (case extract_imports_from_code parse code of
                Inl ex \<Rightarrow> Inl ex
              | Inr cell_imports \<Rightarrow> notebook_cells parse rest (imports \<union> cell_imports)))
      else notebook_cells parse rest imports)"
| "notebook_cells parse (_ # rest) imports = Inl AttributeError"

text \<open>
  \<^verbatim>\<open>extract_imports_from_notebook\<close>. The parameter \<open>load_json\<close> is opening the
  file and \<^verbatim>\<open>json.load\<close> (lines 123-124). \<^verbatim>\<open>JSONDecodeError\<close> and
  \<^verbatim>\<open>FileNotFoundError\<close> are caught (line 125).
\<close>

definition extract_imports_from_notebook ::
    "(string \<Rightarrow> py_exception + node) \<Rightarrow> (string \<Rightarrow> py_exception + json) \<Rightarrow> string
      \<Rightarrow> string list \<times> (py_exception + extraction_result)" where
  "extract_imports_from_notebook parse load_json notebook_path =
     (case load_json notebook_path of
        Inl (JSONDecodeError e) \<Rightarrow>
          ([''  Warning: Could not parse '' @ notebook_path @ '': '' @ e],
           Inr \<lparr>result_file = notebook_path, result_imports = {}\<rparr>)
      | Inl (FileNotFoundError e) \<Rightarrow>
          ([''  Warning: Could not parse '' @ notebook_path @ '': '' @ e],
           Inr \<lparr>result_file = notebook_path, result_imports = {}\<rparr>)
      | Inl ex \<Rightarrow> ([], Inl ex)
      | Inr (JObject notebook) \<Rightarrow>
          (case iterate (dict_get notebook ''cells'' (JArray [])) of
             Inl ex \<Rightarrow> ([], Inl ex)
           | Inr cells \<Rightarrow>
               (case notebook_cells parse cells {} of
                  Inl ex \<Rightarrow> ([], Inl ex)
                | Inr imports \<Rightarrow> ([], Inr \<lparr>result_file = notebook_path, result_imports = imports\<rparr>)))
      | Inr _ \<Rightarrow> ([], Inl AttributeError))"

section \<open>Properties\<close>

subsection \<open>Text and tree traversal\<close>

lemma py_split_not_Nil: "py_split sep s \<noteq> []"
  by (induction s) (auto split: list.splits)

lemma hd_py_split: "hd (py_split sep s) = takeWhile (\<lambda>c. c \<noteq> sep) s"
  by (induction s) (auto split: list.splits simp: py_split_not_Nil)

lemma top_module_takeWhile: "top_module path = takeWhile (\<lambda>c. c \<noteq> CHR ''.'') path"
  by (simp add: top_module_def hd_py_split)

lemma top_module_no_dot: "CHR ''.'' \<notin> set (top_module path)"
  unfolding top_module_takeWhile by (auto dest: set_takeWhileD)

lemma space_not_path_char: "is_space c \<Longrightarrow> \<not> is_path_char c"
  by (auto simp: is_space_def is_path_char_def is_word_def Let_def)

lemma add_aliases_eq:
  "add_aliases names acc = acc \<union> (\<lambda>a. top_module (name a)) ` set names"
  by (induction names arbitrary: acc) auto

lemma visit_nodes_acc:
  "visit_nodes nodes acc = acc \<union> (\<Union>n \<in> set nodes. visit_nodes [n] {})"
proof (induction nodes acc rule: visit_nodes.induct)
  case (1 acc)
  then show ?case by simp
next
  case (2 names rest acc)
  then show ?case by (simp add: add_aliases_eq Un_assoc)
next
  case (3 module names level rest acc)
  then show ?case by (cases module) auto
next
  case (4 a rest acc)
  then show ?case by simp
next
  case (5 children rest acc)
  then show ?case by simp
qed

lemma visit_single_iff:
  "x \<in> visit_nodes [n] {} \<longleftrightarrow>
     (\<exists>names a. n = Import names \<and> a \<in> set names \<and> x = top_module (name a))
     \<or> (\<exists>m names level. n = ImportFrom (Some m) names level \<and> m \<noteq> [] \<and> x = top_module m)"
  by (cases n) (auto simp: add_aliases_eq split: option.splits)

lemma visit_nodes_iff:
  "x \<in> visit_nodes nodes {} \<longleftrightarrow>
     (\<exists>names a. Import names \<in> set nodes \<and> a \<in> set names \<and> x = top_module (name a))
     \<or> (\<exists>m names level. ImportFrom (Some m) names level \<in> set nodes \<and> m \<noteq> [] \<and> x = top_module m)"
proof -
  have "x \<in> visit_nodes nodes {} \<longleftrightarrow> (\<exists>n \<in> set nodes. x \<in> visit_nodes [n] {})"
    by (subst visit_nodes_acc) simp
  then show ?thesis
    unfolding visit_single_iff by blast
qed

lemma regex_line_union: "regex_line line acc = acc \<union> regex_line line {}"
  by (auto simp: regex_line_def Let_def split: option.splits)

lemma regex_lines_eq:
  "regex_lines ls acc = acc \<union> (\<Union>l \<in> set ls. regex_line l {})"
proof (induction ls arbitrary: acc)
  case Nil
  then show ?case by simp
next
  case (Cons l ls)
  have "regex_lines (l # ls) acc = regex_line l acc \<union> (\<Union>l \<in> set ls. regex_line l {})"
    by (simp add: Cons.IH)
  also have "\<dots> = acc \<union> regex_line l {} \<union> (\<Union>l \<in> set ls. regex_line l {})"
    using regex_line_union [of l acc] by simp
  finally show ?case by auto
qed

lemma notebook_cells_no_code:
  assumes "\<forall>cell \<in> set cells. \<exists>d. cell = JObject d \<and> map_of d ''cell_type'' \<noteq> Some (JString ''code'')"
  shows "notebook_cells parse cells acc = Inr acc"
  using assms
proof (induction cells)
  case Nil
  then show ?case by simp
next
  case (Cons cell cells)
  then obtain d where "cell = JObject d" "map_of d ''cell_type'' \<noteq> Some (JString ''code'')"
    by auto
  with Cons show ?case by simp
qed

subsection \<open>The tables\<close>

lemma pip_values:
  "IMPORT_TO_PIP x = Some p \<Longrightarrow>
   p \<in> {''google-api-python-client'', ''python-dotenv'', ''scikit-learn'', ''Pillow'',
      ''opencv-python'', ''PyYAML'', ''beautifulsoup4'', ''youtube-transcript-api''}"
  unfolding IMPORT_TO_PIP_def
  by (drule map_of_SomeD) auto

lemma pip_targets_miss:
  "p \<in> {''google-api-python-client'', ''python-dotenv'', ''scikit-learn'', ''Pillow'',
      ''opencv-python'', ''PyYAML'', ''beautifulsoup4'', ''youtube-transcript-api''}
   \<Longrightarrow> IMPORT_TO_PIP p = None"
  by (elim insertE emptyE; simp add: IMPORT_TO_PIP_def)

lemma pip_value_not_key: "IMPORT_TO_PIP x = Some p \<Longrightarrow> IMPORT_TO_PIP p = None"
  by (rule pip_targets_miss, erule pip_values)

lemma pip_name_idem: "pip_name (pip_name x) = pip_name x"
  by (cases "IMPORT_TO_PIP x") (simp_all add: pip_name_def pip_value_not_key)

lemma numpy_not_stdlib: "''numpy'' \<notin> STDLIB_MODULES"
  by (simp add: STDLIB_MODULES_def)

lemma sklearn_not_stdlib: "''sklearn'' \<notin> STDLIB_MODULES"
  by (simp add: STDLIB_MODULES_def)

subsection \<open>The claims\<close>

text \<open>
  Claim C1. When \<^verbatim>\<open>ast.parse\<close> returns a tree for the text, the extractor returns
  exactly the first dot-separated segments of the import targets in the tree: the part
  before the first dot of the name of every alias of a plain import, and of the module
  of every from-import that names one. A from-import whose module is \<open>None\<close>
  contributes nothing, and no element of the result contains a dot, so none is a
  dotted path of several segments.
\<close>

theorem extract_ast_first_segments:
  assumes "parse t = Inr tree"
  shows "\<exists>S. extract_imports_from_code parse t = Inr S
     \<and> S = {takeWhile (\<lambda>c. c \<noteq> CHR ''.'') (name a) | names a.
              Import names \<in> set (walk tree) \<and> a \<in> set names}
          \<union> {takeWhile (\<lambda>c. c \<noteq> CHR ''.'') m | m names level.
              ImportFrom (Some m) names level \<in> set (walk tree) \<and> m \<noteq> []}
     \<and> (\<forall>x \<in> S. CHR ''.'' \<notin> set x)"
proof -
  let ?S = "visit_nodes (walk tree) {}"
  have res: "extract_imports_from_code parse t = Inr ?S"
    using assms by (simp add: extract_imports_from_code_def)
  have eq: "?S = {takeWhile (\<lambda>c. c \<noteq> CHR ''.'') (name a) | names a.
              Import names \<in> set (walk tree) \<and> a \<in> set names}
          \<union> {takeWhile (\<lambda>c. c \<noteq> CHR ''.'') m | m names level.
              ImportFrom (Some m) names level \<in> set (walk tree) \<and> m \<noteq> []}"
    by (rule set_eqI) (simp add: visit_nodes_iff top_module_takeWhile, blast)
  have nodot: "\<forall>x \<in> ?S. CHR ''.'' \<notin> set x"
    using top_module_no_dot by (auto simp: visit_nodes_iff)
  from res eq nodot show ?thesis by blast
qed

theorem extract_ast_first_segments_witness:
  "parsed_as (Other [Import [Alias ''a.b.c'' None],
                     ImportFrom (Some ''pkg.sub'') [Alias ''x'' None] 0,
                     ImportFrom None [Alias ''y'' None] 1])
      ''import a.b.c\<newline>from pkg.sub import x\<newline>from . import y''
    = Inr (Other [Import [Alias ''a.b.c'' None],
                  ImportFrom (Some ''pkg.sub'') [Alias ''x'' None] 0,
                  ImportFrom None [Alias ''y'' None] 1])
   \<and> (\<exists>S. extract_imports_from_code
            (parsed_as (Other [Import [Alias ''a.b.c'' None],
                               ImportFrom (Some ''pkg.sub'') [Alias ''x'' None] 0,
                               ImportFrom None [Alias ''y'' None] 1]))
            ''import a.b.c\<newline>from pkg.sub import x\<newline>from . import y'' = Inr S
          \<and> S = {''a'', ''pkg''} \<and> (\<forall>x \<in> S. CHR ''.'' \<notin> set x))"
proof -
  let ?tree = "Other [Import [Alias ''a.b.c'' None],
                      ImportFrom (Some ''pkg.sub'') [Alias ''x'' None] 0,
                      ImportFrom None [Alias ''y'' None] 1]"
  let ?t = "''import a.b.c\<newline>from pkg.sub import x\<newline>from . import y''"
  have h: "parsed_as ?tree ?t = Inr ?tree"
    by (simp add: parsed_as_def)
  have v: "extract_imports_from_code (parsed_as ?tree) ?t = Inr {''a'', ''pkg''}"
    by (simp add: extract_imports_from_code_def parsed_as_def walk_def top_module_def
        insert_commute)
  from extract_ast_first_segments [of "parsed_as ?tree" ?t ?tree] h v show ?thesis
    by auto
qed




text \<open>
  Claim C3, as the code behaves. On the malformed text of the scenario the extractor
  does not return the empty set: the fallback strips each line before it matches, so
  the indented line is matched as \<^verbatim>\<open>import requests\<close> and the result is
  \<open>{requests}\<close>. The first theorem refutes the empty result; the second states
  what is returned.
\<close>

theorem indented_import_counterexample:
  "extract_imports_from_code syntax_error_parse ''def f(:\<newline>  import requests'' \<noteq> Inr {}"
proof -
  have "extract_imports_regex ''def f(:\<newline>  import requests'' = {''requests''}"
    by code_simp
  then show ?thesis
    by (simp add: extract_imports_from_code_def syntax_error_parse_def)
qed

text \<open>
  Claim C3, amended: the extractor returns \<open>{requests}\<close> on the text of the scenario.
\<close>

theorem indented_import_is_matched:
  assumes "parse ''def f(:\<newline>  import requests'' = Inl SyntaxError"
  shows "extract_imports_from_code parse ''def f(:\<newline>  import requests'' = Inr {''requests''}
     \<and> strip ''  import requests'' = ''import requests''
     \<and> match_pattern1 (strip ''  import requests'') = Some ''requests''"
proof -
  have "extract_imports_regex ''def f(:\<newline>  import requests'' = {''requests''}"
    by code_simp
  moreover have "strip ''  import requests'' = ''import requests''"
    by code_simp
  moreover have "match_pattern1 ''import requests'' = Some ''requests''"
    by code_simp
  ultimately show ?thesis
    using assms by (simp add: extract_imports_from_code_def)
qed

theorem indented_import_is_matched_witness:
  "syntax_error_parse ''def f(:\<newline>  import requests'' = Inl SyntaxError
   \<and> extract_imports_from_code syntax_error_parse ''def f(:\<newline>  import requests''
       = Inr {''requests''}"
proof -
  have h: "syntax_error_parse ''def f(:\<newline>  import requests'' = Inl SyntaxError"
    by (simp add: syntax_error_parse_def)
  from indented_import_is_matched [of syntax_error_parse] h show ?thesis
    by simp
qed

text \<open>
  Claim C4. For the text of the scenario, whose tree is a plain import of
  \<^verbatim>\<open>numpy\<close> and a from-import of \<^verbatim>\<open>sklearn.model_selection\<close>, the extractor
  returns \<open>{numpy, sklearn}\<close>, the filter leaves that set unchanged, and the mapper
  then yields \<open>{numpy, scikit-learn}\<close>.
\<close>

theorem numpy_sklearn_scenario:
  assumes "parse ''import numpy as np\<newline>from sklearn.model_selection import train_test_split\<newline>''
     = Inr (Other [Import [Alias ''numpy'' (Some ''np'')],
                   ImportFrom (Some ''sklearn.model_selection'')
                     [Alias ''train_test_split'' None] 0])"
  shows "extract_imports_from_code parse
           ''import numpy as np\<newline>from sklearn.model_selection import train_test_split\<newline>''
         = Inr {''numpy'', ''sklearn''}
     \<and> filter_third_party {''numpy'', ''sklearn''} = {''numpy'', ''sklearn''}
     \<and> map_to_pip_names (filter_third_party {''numpy'', ''sklearn''}) = {''numpy'', ''scikit-learn''}"
proof -
  have e: "extract_imports_from_code parse
           ''import numpy as np\<newline>from sklearn.model_selection import train_test_split\<newline>''
         = Inr {''numpy'', ''sklearn''}"
    using assms
    by (simp add: extract_imports_from_code_def walk_def top_module_def insert_commute)
  have f: "filter_third_party {''numpy'', ''sklearn''} = {''numpy'', ''sklearn''}"
    unfolding filter_third_party_def using numpy_not_stdlib sklearn_not_stdlib by blast
  have m: "map_to_pip_names {''numpy'', ''sklearn''} = {''numpy'', ''scikit-learn''}"
    by (simp add: map_to_pip_names_def pip_name_def IMPORT_TO_PIP_def)
  from e f m show ?thesis by simp
qed

theorem numpy_sklearn_scenario_witness:
  "parsed_as (Other [Import [Alias ''numpy'' (Some ''np'')],
                     ImportFrom (Some ''sklearn.model_selection'')
                       [Alias ''train_test_split'' None] 0])
     ''import numpy as np\<newline>from sklearn.model_selection import train_test_split\<newline>''
   = Inr (Other [Import [Alias ''numpy'' (Some ''np'')],
                 ImportFrom (Some ''sklearn.model_selection'')
                   [Alias ''train_test_split'' None] 0])
   \<and> extract_imports_from_code
        (parsed_as (Other [Import [Alias ''numpy'' (Some ''np'')],
                           ImportFrom (Some ''sklearn.model_selection'')
                             [Alias ''train_test_split'' None] 0]))
        ''import numpy as np\<newline>from sklearn.model_selection import train_test_split\<newline>''
      = Inr {''numpy'', ''sklearn''}
   \<and> map_to_pip_names (filter_third_party {''numpy'', ''sklearn''}) = {''numpy'', ''scikit-learn''}"
proof -
  let ?tree = "Other [Import [Alias ''numpy'' (Some ''np'')],
                      ImportFrom (Some ''sklearn.model_selection'')
                        [Alias ''train_test_split'' None] 0]"
  let ?t = "''import numpy as np\<newline>from sklearn.model_selection import train_test_split\<newline>''"
  have h: "parsed_as ?tree ?t = Inr ?tree"
    by (simp add: parsed_as_def)
  from numpy_sklearn_scenario [of "parsed_as ?tree"] h show ?thesis
    by blast
qed

text \<open>
  Claim C5. The filter returns a subset of its input and is idempotent; it is the
  input without the standard-library names, a total function of the set.
\<close>

theorem filter_third_party_subset_idem:
  "filter_third_party s \<subseteq> s
   \<and> filter_third_party (filter_third_party s) = filter_third_party s
   \<and> filter_third_party s = s - STDLIB_MODULES"
  by (auto simp: filter_third_party_def)

text \<open>
  Claim C6. For a (finite) set of names, every name the mapper returns is a name of
  the input or a value of the table, the result has at most as many elements as the
  input, and a name that is no key of the table is kept as it is.
\<close>

theorem map_to_pip_names_bounds:
  assumes "finite s"
  shows "(\<forall>y \<in> map_to_pip_names s. y \<in> s \<or> y \<in> ran IMPORT_TO_PIP)
     \<and> card (map_to_pip_names s) \<le> card s
     \<and> (\<forall>x \<in> s. IMPORT_TO_PIP x = None \<longrightarrow> x \<in> map_to_pip_names s)"
proof (intro conjI ballI impI)
  fix y assume "y \<in> map_to_pip_names s"
  then obtain x where x: "x \<in> s" "y = pip_name x"
    by (auto simp: map_to_pip_names_def)
  show "y \<in> s \<or> y \<in> ran IMPORT_TO_PIP"
  proof (cases "IMPORT_TO_PIP x")
    case None
    with x show ?thesis by (simp add: pip_name_def)
  next
    case (Some p)
    with x show ?thesis by (auto simp: pip_name_def ran_def)
  qed
next
  from assms show "card (map_to_pip_names s) \<le> card s"
    unfolding map_to_pip_names_def by (rule card_image_le)
next
  fix x assume "x \<in> s" "IMPORT_TO_PIP x = None"
  then have "pip_name x = x" by (simp add: pip_name_def)
  with \<open>x \<in> s\<close> show "x \<in> map_to_pip_names s"
    unfolding map_to_pip_names_def by force
qed

theorem map_to_pip_names_bounds_witness:
  "finite {''google'', ''googleapiclient'', ''numpy''}
   \<and> map_to_pip_names {''google'', ''googleapiclient'', ''numpy''}
       = {''google-api-python-client'', ''numpy''}
   \<and> card (map_to_pip_names {''google'', ''googleapiclient'', ''numpy''})
       \<le> card {''google'', ''googleapiclient'', ''numpy''}
   \<and> ''google-api-python-client'' \<in> ran IMPORT_TO_PIP
   \<and> ''numpy'' \<in> map_to_pip_names {''google'', ''googleapiclient'', ''numpy''}"
proof -
  have h: "finite {''google'', ''googleapiclient'', ''numpy''}"
    by simp
  have v: "map_to_pip_names {''google'', ''googleapiclient'', ''numpy''}
       = {''google-api-python-client'', ''numpy''}"
    by (simp add: map_to_pip_names_def pip_name_def IMPORT_TO_PIP_def)
  from map_to_pip_names_bounds [OF h] h v show ?thesis
    by auto
qed



text \<open>
  Claim C8. For a notebook whose cells are records none of which has the type tag
  \<^verbatim>\<open>code\<close>, the notebook adapter prints nothing and returns the result that pairs
  the path with the empty set.
\<close>

theorem notebook_without_code_cells:
  assumes "load_json notebook_path = Inr (JObject notebook)"
    and "iterate (dict_get notebook ''cells'' (JArray [])) = Inr cells"
    and "\<forall>cell \<in> set cells. \<exists>d. cell = JObject d \<and> map_of d ''cell_type'' \<noteq> Some (JString ''code'')"
  shows "extract_imports_from_notebook parse load_json notebook_path
         = ([], Inr \<lparr>result_file = notebook_path, result_imports = {}\<rparr>)"
  using assms notebook_cells_no_code [of cells parse "{}"]
  by (simp add: extract_imports_from_notebook_def)

theorem notebook_without_code_cells_witness:
  "extract_imports_from_notebook syntax_error_parse
     (\<lambda>p. Inr (JObject [(''cells'',
        JArray [JObject [(''cell_type'', JString ''markdown''), (''source'', JArray [JString ''import os''])],
                JObject [(''cell_type'', JString ''raw''), (''source'', JString ''import sys'')]])]))
     ''notebooks/a.ipynb''
   = ([], Inr \<lparr>result_file = ''notebooks/a.ipynb'', result_imports = {}\<rparr>)"
proof -
  let ?cells = "[JObject [(''cell_type'', JString ''markdown''), (''source'', JArray [JString ''import os''])],
                JObject [(''cell_type'', JString ''raw''), (''source'', JString ''import sys'')]]"
  let ?nb = "[(''cells'', JArray ?cells)]"
  have h1: "(\<lambda>p. Inr (JObject ?nb) :: py_exception + json) ''notebooks/a.ipynb'' = Inr (JObject ?nb)"
    by simp
  have h2: "iterate (dict_get ?nb ''cells'' (JArray [])) = Inr ?cells"
    by (simp add: iterate_def dict_get_def)
  have h3: "\<forall>cell \<in> set ?cells. \<exists>d. cell = JObject d \<and> map_of d ''cell_type'' \<noteq> Some (JString ''code'')"
    by simp
  from notebook_without_code_cells [of "\<lambda>p. Inr (JObject ?nb)" "''notebooks/a.ipynb''" ?nb ?cells,
      OF h1 h2 h3]
  show ?thesis .
qed

text \<open>
  Claim C9. For a text that \<^verbatim>\<open>ast.parse\<close> rejects and that has a line whose
  stripped form is \<^verbatim>\<open>from . import x\<close>, the second pattern matches with the
  group \<^verbatim>\<open>.\<close>, whose first segment is the empty text, and the empty text is an
  element of the set that the extractor returns. The witness is such a text.
\<close>

theorem fallback_yields_empty_name:
  assumes "parse t = Inl SyntaxError"
    and "line \<in> set (py_split CHR 0x0A t)"
    and "strip line = ''from . import x''"
  shows "extract_imports_from_code parse t = Inr (extract_imports_regex t)
     \<and> [] \<in> extract_imports_regex t
     \<and> match_pattern2 (strip line) = Some ''.''
     \<and> top_module ''.'' = []"
proof -
  have m: "match_pattern2 ''from . import x'' = Some ''.''"
    by code_simp
  have tm: "top_module ''.'' = []"
    by code_simp
  have "[] \<in> regex_line line {}"
    using assms(3) m tm by (simp add: regex_line_def Let_def split: option.splits)
  with assms(2) have "[] \<in> extract_imports_regex t"
    unfolding extract_imports_regex_def by (subst regex_lines_eq) blast
  with assms(1,3) m tm show ?thesis
    by (simp add: extract_imports_from_code_def)
qed

theorem fallback_yields_empty_name_witness:
  "syntax_error_parse ''def f(:\<newline>from . import x'' = Inl SyntaxError
   \<and> ''from . import x'' \<in> set (py_split CHR 0x0A ''def f(:\<newline>from . import x'')
   \<and> strip ''from . import x'' = ''from . import x''
   \<and> extract_imports_from_code syntax_error_parse ''def f(:\<newline>from . import x''
       = Inr (extract_imports_regex ''def f(:\<newline>from . import x'')
   \<and> [] \<in> extract_imports_regex ''def f(:\<newline>from . import x''"
proof -
  have h1: "syntax_error_parse ''def f(:\<newline>from . import x'' = Inl SyntaxError"
    by (simp add: syntax_error_parse_def)
  have h2: "''from . import x'' \<in> set (py_split CHR 0x0A ''def f(:\<newline>from . import x'')"
    by simp
  have h3: "strip ''from . import x'' = ''from . import x''"
    by code_simp
  from fallback_yields_empty_name [of syntax_error_parse "''def f(:\<newline>from . import x''"
      "''from . import x''", OF h1 h2 h3] h1 h2 h3
  show ?thesis by blast
qed

text \<open>
  Claim C10. No value of the table is a key of the table, and the mapper is
  idempotent.
\<close>

theorem map_to_pip_names_idem:
  "ran IMPORT_TO_PIP \<inter> dom IMPORT_TO_PIP = {}
   \<and> map_to_pip_names (map_to_pip_names s) = map_to_pip_names s"
proof
  show "ran IMPORT_TO_PIP \<inter> dom IMPORT_TO_PIP = {}"
    using pip_value_not_key by (fastforce simp: ran_def dom_def)
  show "map_to_pip_names (map_to_pip_names s) = map_to_pip_names s"
    by (simp add: map_to_pip_names_def image_image pip_name_idem)
qed

end
